theory Spec2Isabelle
  imports Main "HOL-Library.AList"
begin

section \<open>The end-to-end resource generators (test/e2e/resource_generator.go)\<close>

subsection \<open>Kubernetes object types, as far as the generators fill them in\<close>

text \<open>
  The Go composite literals of the generators name only the fields below; every other
  field of the Kubernetes types (TypeMeta, Status, ...) keeps its zero value and is not
  represented. A Go \<open>map[string]string\<close> is a partial function, the nil map being the
  empty one. A pointer field that the literal sets is an \<open>option\<close>.
\<close>

record ObjectMeta =
  Namespace :: string
  Name :: string
  Labels :: "string \<rightharpoonup> string"

text \<open>corev1.ObjectReference; \<open>RefNamespace\<close> and \<open>RefName\<close> are its fields Namespace and Name.\<close>

record ObjectReference =
  APIVersion :: string
  Kind :: string
  RefNamespace :: string
  RefName :: string

text \<open>intstr.IntOrString: a value that is either a number or a string.\<close>

datatype IntOrString = FromInt int | FromString string

record DOClusterSpec =
  Region :: string

record DOCluster =
  DOCluster_ObjectMeta :: ObjectMeta
  DOCluster_Spec :: DOClusterSpec

text \<open>clusterv1.ClusterNetwork is created empty (\<open>&clusterv1.ClusterNetwork{}\<close>).\<close>

datatype ClusterNetwork = EmptyClusterNetwork

record ClusterSpec =
  ClusterNetwork :: "ClusterNetwork option"
  Cluster_InfrastructureRef :: "ObjectReference option"

record Cluster =
  Cluster_ObjectMeta :: ObjectMeta
  Cluster_Spec :: ClusterSpec

record NodeRegistrationOptions =
  NodeRegistration_Name :: string
  KubeletExtraArgs :: "string \<rightharpoonup> string"

record InitConfiguration =
  Init_NodeRegistration :: NodeRegistrationOptions

record JoinConfiguration =
  Join_NodeRegistration :: NodeRegistrationOptions

record KubeadmConfigSpec =
  InitConfiguration :: "InitConfiguration option"
  JoinConfiguration :: "JoinConfiguration option"

record KubeadmConfig =
  KubeadmConfig_ObjectMeta :: ObjectMeta
  KubeadmConfig_Spec :: KubeadmConfigSpec

record DOMachineSpec =
  Size :: string
  DOMachine_Image :: IntOrString
  SSHKeys :: "IntOrString list"
  AdditionalTags :: "string list"

record DOMachine =
  DOMachine_ObjectMeta :: ObjectMeta
  DOMachine_Spec :: DOMachineSpec

record Bootstrap =
  ConfigRef :: "ObjectReference option"

record MachineSpec =
  Machine_Bootstrap :: Bootstrap
  Machine_InfrastructureRef :: ObjectReference
  Version :: "string option"

record Machine =
  Machine_ObjectMeta :: ObjectMeta
  Machine_Spec :: MachineSpec

text \<open>
  The argument of \<open>TypeToKind(i interface{})\<close>: the generators pass it a pointer to one
  of three object types.
\<close>

datatype object =
  DOClusterObject DOCluster
  | KubeadmConfigObject KubeadmConfig
  | DOMachineObject DOMachine

subsection \<open>What the generators use and the file does not declare\<close>

text \<open>
  Package-level values of the e2e suite and functions of imported packages that
  resource_generator.go uses without declaring them. They are parameters of the model:
  the flag \<open>*kubernetesVersion\<close>, the variables \<open>machineSize\<close>, \<open>machineImage\<close> and
  \<open>machineSSHKey\<close>, the two \<open>GroupVersion.String()\<close> values, the helper \<open>TypeToKind\<close>
  and \<open>intstr.Parse\<close>.
\<close>

record Env =
  kubernetesVersion :: string
  machineSize :: string
  machineImage :: string
  machineSSHKey :: string
  infrav1_GroupVersion :: string
  bootstrapkubeadmv1_GroupVersion :: string
  TypeToKind :: "object \<Rightarrow> string"
  intstr_Parse :: "string \<Rightarrow> IntOrString"

text \<open>
  The label keys of sigs.k8s.io/cluster-api/api/v1alpha2 (\<open>clusterv1.MachineClusterLabelName\<close>
  and \<open>clusterv1.MachineControlPlaneLabelName\<close>).
\<close>

definition MachineClusterLabelName :: string where
  "MachineClusterLabelName = ''cluster.x-k8s.io/cluster-name''"

definition MachineControlPlaneLabelName :: string where
  "MachineControlPlaneLabelName = ''cluster.x-k8s.io/control-plane''"

text \<open>
  \<open>util.RandomString(n)\<close> draws \<open>n\<close> characters from a random source. The source is an
  explicit state: an infinite sequence of characters, of which a call consumes the first
  \<open>n\<close>.
\<close>

type_synonym rng = "nat \<Rightarrow> char"

definition RandomString :: "nat \<Rightarrow> rng \<Rightarrow> string \<times> rng" where
  "RandomString n r = (map r [0..<n], (\<lambda>i. r (n + i)))"

text \<open>\<open>labels.Merge(a, b)\<close>: a new map holding the entries of \<open>a\<close>, then those of \<open>b\<close>.\<close>

definition labels_Merge :: "(string \<rightharpoonup> string) \<Rightarrow> (string \<rightharpoonup> string) \<Rightarrow> (string \<rightharpoonup> string)" where
  "labels_Merge a b = a ++ b"

subsection \<open>ClusterGenerator.Generate\<close>

definition ClusterGenerator_Generate :: "Env \<Rightarrow> string \<Rightarrow> string \<Rightarrow> Cluster \<times> DOCluster" where
  "ClusterGenerator_Generate env clusterNamespace clusterName =
     (let clusterRegion = ''nyc1'';
          docluster = \<lparr>DOCluster_ObjectMeta =
                         \<lparr>Namespace = clusterNamespace, Name = clusterName, Labels = Map.empty\<rparr>,
                       DOCluster_Spec = \<lparr>Region = clusterRegion\<rparr>\<rparr>;
          cluster = \<lparr>Cluster_ObjectMeta =
                       \<lparr>Namespace = clusterNamespace, Name = clusterName, Labels = Map.empty\<rparr>,
                     Cluster_Spec =
                       \<lparr>ClusterNetwork = Some EmptyClusterNetwork,
                        Cluster_InfrastructureRef = Some
                          \<lparr>APIVersion = infrav1_GroupVersion env,
                           Kind = TypeToKind env (DOClusterObject docluster),
                           RefNamespace = Namespace (DOCluster_ObjectMeta docluster),
                           RefName = Name (DOCluster_ObjectMeta docluster)\<rparr>\<rparr>\<rparr>
      in (cluster, docluster))"

subsection \<open>MachineGenerator.Generate\<close>

text \<open>
  The name is first built with the worker suffix and, for a control-plane machine, built
  again with the control-plane suffix: a control-plane call draws two random strings and
  keeps the second.
\<close>

definition machineName :: "string \<Rightarrow> bool \<Rightarrow> rng \<Rightarrow> string \<times> rng" where
  "machineName clusterName isControlPlane r =
     (let (s1, r1) = RandomString 6 r;
          name = clusterName @ ''-node-'' @ s1
      in if isControlPlane
         then (let (s2, r2) = RandomString 6 r1 in (clusterName @ ''-controlplane-'' @ s2, r2))
         else (name, r1))"

definition nodeRegistration :: NodeRegistrationOptions where
  \<open>nodeRegistration =
     \<lparr>NodeRegistration_Name = ''{{ ds.meta_data["local_hostname"] }}'',
      KubeletExtraArgs =
        [''cloud-provider'' \<mapsto> ''external'',
         ''provider-id'' \<mapsto> ''digitalocean://{{ ds.meta_data["instance_id"] }}'']\<rparr>\<close>

definition MachineGenerator_Generate ::
  "Env \<Rightarrow> string \<Rightarrow> string \<Rightarrow> bool \<Rightarrow> rng \<Rightarrow> (Machine \<times> KubeadmConfig \<times> DOMachine) \<times> rng" where
  "MachineGenerator_Generate env namespace clusterName isControlPlane r =
     (let (name, r') = machineName clusterName isControlPlane r;
          kubeadmconfig =
            \<lparr>KubeadmConfig_ObjectMeta = \<lparr>Namespace = namespace, Name = name, Labels = Map.empty\<rparr>,
             KubeadmConfig_Spec =
               \<lparr>InitConfiguration = Some \<lparr>Init_NodeRegistration = nodeRegistration\<rparr>,
                JoinConfiguration = Some \<lparr>Join_NodeRegistration = nodeRegistration\<rparr>\<rparr>\<rparr>;
          domachine =
            \<lparr>DOMachine_ObjectMeta = \<lparr>Namespace = namespace, Name = name, Labels = Map.empty\<rparr>,
             DOMachine_Spec =
               \<lparr>Size = machineSize env,
                DOMachine_Image = intstr_Parse env (machineImage env),
                SSHKeys = [intstr_Parse env (machineSSHKey env)],
                AdditionalTags = [''e2e-test'']\<rparr>\<rparr>;
          machine =
            \<lparr>Machine_ObjectMeta =
               \<lparr>Namespace = namespace, Name = name,
                Labels = [MachineClusterLabelName \<mapsto> clusterName]\<rparr>,
             Machine_Spec =
               \<lparr>Machine_Bootstrap =
                  \<lparr>ConfigRef = Some
                     \<lparr>APIVersion = bootstrapkubeadmv1_GroupVersion env,
                      Kind = TypeToKind env (KubeadmConfigObject kubeadmconfig),
                      RefNamespace = Namespace (KubeadmConfig_ObjectMeta kubeadmconfig),
                      RefName = Name (KubeadmConfig_ObjectMeta kubeadmconfig)\<rparr>\<rparr>,
                Machine_InfrastructureRef =
                  \<lparr>APIVersion = infrav1_GroupVersion env,
                   Kind = TypeToKind env (DOMachineObject domachine),
                   RefNamespace = Namespace (DOMachine_ObjectMeta domachine),
                   RefName = Name (DOMachine_ObjectMeta domachine)\<rparr>,
                Version = Some (kubernetesVersion env)\<rparr>\<rparr>;
          machine' =
            (if isControlPlane
             then machine\<lparr>Machine_ObjectMeta := (Machine_ObjectMeta machine)
                    \<lparr>Labels := labels_Merge (Labels (Machine_ObjectMeta machine))
                                 [MachineControlPlaneLabelName \<mapsto> ''true'']\<rparr>\<rparr>
             else machine)
      in ((machine', kubeadmconfig, domachine), r'))"

section \<open>The reconciliation state machine\<close>

text \<open>
  The controllers of the repository (the Cluster Reconciler, the Machine Reconciler and
  the cloud client they call) are not among the source files; only the end-to-end test
  that drives them is. This part is therefore written from the specification, sections 3
  to 7, and every definition below says which sentence it follows.
\<close>

subsection \<open>Resource model (specification, section 3)\<close>

text \<open>An object of the store is addressed by its namespace and its name.\<close>

type_synonym key = "string \<times> string"

text \<open>Modelled from the spec: the error classes of the adapter (section 4.3).\<close>

datatype adapter_error = NotFound | Conflict | RateLimited | Permanent

record Endpoint =
  host :: string
  port :: nat

text \<open>
  Modelled from the spec: the generic Cluster. \<open>c_infrastructureRef\<close> is the name of the
  InfraCluster it references.
\<close>

record GenericCluster =
  c_infrastructureRef :: string
  c_infrastructureReady :: bool
  c_controlPlaneEndpoint :: "Endpoint option"
  c_controlPlaneInitialized :: bool

text \<open>
  Modelled from the spec: the InfraCluster, spec \<open>{region}\<close>, status
  \<open>{ready, controlPlaneEndpoint, loadBalancerID}\<close>, with the name of the generic
  Cluster that owns it, its deletion timestamp, its finalizer and the condition that
  reports a permanent misconfiguration.
\<close>

record InfraCluster =
  ic_owner :: string
  ic_deletionTimestamp :: bool
  ic_finalizer :: bool
  ic_region :: string
  ic_ready :: bool
  ic_controlPlaneEndpoint :: "Endpoint option"
  ic_loadBalancerID :: "string option"
  ic_condition :: "adapter_error option"

text \<open>
  Modelled from the spec: the generic Machine. \<open>m_infrastructureRef\<close> is the name of the
  InfraMachine it references, \<open>m_bootstrapData\<close> the rendered bootstrap user-data.
\<close>

record GenericMachine =
  m_bootstrapRef :: string
  m_infrastructureRef :: string
  m_version :: string
  m_controlPlane :: bool
  m_bootstrapData :: string
  m_bootstrapDataReady :: bool
  m_infrastructureReady :: bool
  m_nodeRef :: "(string \<times> string) option"

text \<open>
  Modelled from the spec: the InfraMachine, spec
  \<open>{size, image, sshKeys, additionalTags, isControlPlane}\<close>, status
  \<open>{ready, instanceID, addresses}\<close>. \<open>im_owner\<close> is the name of the generic Machine that
  owns it, \<open>im_cluster\<close> the name of the InfraCluster it lists as its cluster.
\<close>

record InfraMachine =
  im_owner :: string
  im_cluster :: string
  im_deletionTimestamp :: bool
  im_finalizer :: bool
  im_size :: string
  im_image :: IntOrString
  im_sshKeys :: "IntOrString list"
  im_additionalTags :: "string list"
  im_isControlPlane :: bool
  im_ready :: bool
  im_instanceID :: "string option"
  im_addresses :: "(string \<times> string) list"
  im_condition :: "adapter_error option"

subsection \<open>Cloud Provisioning Adapter (specification, section 4.3)\<close>

text \<open>Modelled from the spec: what \<open>CreateInstance(spec)\<close> is given (section 4.2, Provisioning).\<close>

record InstanceSpec =
  is_name :: string
  is_size :: string
  is_image :: IntOrString
  is_sshKeys :: "IntOrString list"
  is_tags :: "string list"
  is_userData :: string

record Instance =
  instanceId :: string
  instanceSpec :: InstanceSpec
  instanceRunning :: bool
  instanceAddresses :: "(string \<times> string) list"

record LoadBalancerSpec =
  ls_name :: string
  ls_region :: string
  ls_port :: nat

record LoadBalancer =
  lbId :: string
  lbSpec :: LoadBalancerSpec
  lbIP :: "string option"
  lbMembers :: "string list"

text \<open>
  Modelled from the spec: the cloud behind the adapter, as the fake implementation that
  section 4.3 asks for. \<open>nextId\<close> numbers the identifiers the provider assigns.
\<close>

record Cloud =
  instances :: "Instance list"
  loadBalancers :: "LoadBalancer list"
  nextId :: nat

text \<open>
  Modelled from the spec: the operations of the adapter. \<open>GetInstance\<close> and
  \<open>GetLoadBalancer\<close> are the lookups by recorded identifier (section 2: fetch addresses
  and power state; section 3: the identifier is the sole authority once recorded).
\<close>

datatype call =
  FindInstance string
  | GetInstance string
  | CreateInstance InstanceSpec
  | DeleteInstance string
  | FindLoadBalancer string
  | GetLoadBalancer string
  | CreateLoadBalancer LoadBalancerSpec
  | DeleteLoadBalancer string
  | RegisterWithLoadBalancer string string
  | DeregisterFromLoadBalancer string string

text \<open>
  The adapter does not hide errors. An error that does not come from the state of the
  fake cloud (rate limit, conflict, invalid configuration) is injected: \<open>faults\<close> says
  which calls fail and how; a failed call changes nothing.
\<close>

type_synonym faults = "call \<Rightarrow> adapter_error option"

definition noFaults :: faults where
  "noFaults = (\<lambda>c. None)"

fun showNat :: "nat \<Rightarrow> string" where
  "showNat n =
     (if n < 10 then [''0123456789'' ! n]
      else showNat (n div 10) @ [''0123456789'' ! (n mod 10)])"

declare showNat.simps [simp del]

text \<open>Modelled from the spec: \<open>FindInstance(name) \<rightarrow> (instance, found, error)\<close>.\<close>

definition findInstance :: "faults \<Rightarrow> Cloud \<Rightarrow> string \<Rightarrow> adapter_error + Instance option" where
  "findInstance flt c n =
     (case flt (FindInstance n) of
        Some e \<Rightarrow> Inl e
      | None \<Rightarrow> Inr (find (\<lambda>i. is_name (instanceSpec i) = n) (instances c)))"

text \<open>Modelled from the spec: the lookup of an instance by its recorded identifier.\<close>

definition getInstance :: "faults \<Rightarrow> Cloud \<Rightarrow> string \<Rightarrow> adapter_error + Instance" where
  "getInstance flt c ident =
     (case flt (GetInstance ident) of
        Some e \<Rightarrow> Inl e
      | None \<Rightarrow> (case find (\<lambda>i. instanceId i = ident) (instances c) of
                   None \<Rightarrow> Inl NotFound
                 | Some i \<Rightarrow> Inr i))"

text \<open>
  Modelled from the spec: \<open>CreateInstance(spec) \<rightarrow> (instance, error)\<close>. The new instance
  has a fresh identifier, is not yet running and has no address yet.
\<close>

definition createInstance :: "faults \<Rightarrow> Cloud \<Rightarrow> InstanceSpec \<Rightarrow> (adapter_error + Instance) \<times> Cloud" where
  "createInstance flt c sp =
     (case flt (CreateInstance sp) of
        Some e \<Rightarrow> (Inl e, c)
      | None \<Rightarrow>
          (let i = \<lparr>instanceId = showNat (nextId c), instanceSpec = sp,
                    instanceRunning = False, instanceAddresses = []\<rparr>
           in (Inr i, c\<lparr>instances := i # instances c, nextId := Suc (nextId c)\<rparr>)))"

text \<open>Modelled from the spec: \<open>DeleteInstance(id) \<rightarrow> error\<close>, not-found when there is none.\<close>

definition deleteInstance :: "faults \<Rightarrow> Cloud \<Rightarrow> string \<Rightarrow> adapter_error option \<times> Cloud" where
  "deleteInstance flt c ident =
     (case flt (DeleteInstance ident) of
        Some e \<Rightarrow> (Some e, c)
      | None \<Rightarrow>
          (if list_ex (\<lambda>i. instanceId i = ident) (instances c)
           then (None, c\<lparr>instances := filter (\<lambda>i. instanceId i \<noteq> ident) (instances c)\<rparr>)
           else (Some NotFound, c)))"

text \<open>Modelled from the spec: \<open>FindLoadBalancer(name) \<rightarrow> (lb, found, error)\<close>.\<close>

definition findLoadBalancer :: "faults \<Rightarrow> Cloud \<Rightarrow> string \<Rightarrow> adapter_error + LoadBalancer option" where
  "findLoadBalancer flt c n =
     (case flt (FindLoadBalancer n) of
        Some e \<Rightarrow> Inl e
      | None \<Rightarrow> Inr (find (\<lambda>l. ls_name (lbSpec l) = n) (loadBalancers c)))"

text \<open>Modelled from the spec: the lookup of a load balancer by its recorded identifier.\<close>

definition getLoadBalancer :: "faults \<Rightarrow> Cloud \<Rightarrow> string \<Rightarrow> adapter_error + LoadBalancer" where
  "getLoadBalancer flt c ident =
     (case flt (GetLoadBalancer ident) of
        Some e \<Rightarrow> Inl e
      | None \<Rightarrow> (case find (\<lambda>l. lbId l = ident) (loadBalancers c) of
                   None \<Rightarrow> Inl NotFound
                 | Some l \<Rightarrow> Inr l))"

text \<open>
  Modelled from the spec: \<open>CreateLoadBalancer(spec) \<rightarrow> (lb, error)\<close>. The new load balancer
  has a fresh identifier, no external address yet and no registered instance.
\<close>

definition createLoadBalancer ::
  "faults \<Rightarrow> Cloud \<Rightarrow> LoadBalancerSpec \<Rightarrow> (adapter_error + LoadBalancer) \<times> Cloud" where
  "createLoadBalancer flt c sp =
     (case flt (CreateLoadBalancer sp) of
        Some e \<Rightarrow> (Inl e, c)
      | None \<Rightarrow>
          (let l = \<lparr>lbId = showNat (nextId c), lbSpec = sp, lbIP = None, lbMembers = []\<rparr>
           in (Inr l, c\<lparr>loadBalancers := l # loadBalancers c, nextId := Suc (nextId c)\<rparr>)))"

text \<open>Modelled from the spec: \<open>DeleteLoadBalancer(id) \<rightarrow> error\<close>, not-found when there is none.\<close>

definition deleteLoadBalancer :: "faults \<Rightarrow> Cloud \<Rightarrow> string \<Rightarrow> adapter_error option \<times> Cloud" where
  "deleteLoadBalancer flt c ident =
     (case flt (DeleteLoadBalancer ident) of
        Some e \<Rightarrow> (Some e, c)
      | None \<Rightarrow>
          (if list_ex (\<lambda>l. lbId l = ident) (loadBalancers c)
           then (None, c\<lparr>loadBalancers := filter (\<lambda>l. lbId l \<noteq> ident) (loadBalancers c)\<rparr>)
           else (Some NotFound, c)))"

text \<open>
  Modelled from the spec: \<open>RegisterWithLoadBalancer(lbID, instanceID) \<rightarrow> error\<close>,
  idempotent: an instance already registered stays registered once and the call succeeds.
\<close>

definition addMember :: "string \<Rightarrow> string \<Rightarrow> LoadBalancer \<Rightarrow> LoadBalancer" where
  "addMember lb ident l =
     (if lbId l = lb \<and> ident \<notin> set (lbMembers l)
      then l\<lparr>lbMembers := lbMembers l @ [ident]\<rparr> else l)"

definition registerWithLoadBalancer ::
  "faults \<Rightarrow> Cloud \<Rightarrow> string \<Rightarrow> string \<Rightarrow> adapter_error option \<times> Cloud" where
  "registerWithLoadBalancer flt c lb ident =
     (case flt (RegisterWithLoadBalancer lb ident) of
        Some e \<Rightarrow> (Some e, c)
      | None \<Rightarrow>
          (if list_ex (\<lambda>l. lbId l = lb) (loadBalancers c)
           then (None, c\<lparr>loadBalancers := map (addMember lb ident) (loadBalancers c)\<rparr>)
           else (Some NotFound, c)))"

text \<open>
  Modelled from the spec: \<open>DeregisterFromLoadBalancer(lbID, instanceID) \<rightarrow> error\<close>,
  idempotent: an instance that is not registered is left out and the call succeeds; a load
  balancer that is gone is reported as not-found.
\<close>

definition dropMember :: "string \<Rightarrow> string \<Rightarrow> LoadBalancer \<Rightarrow> LoadBalancer" where
  "dropMember lb ident l =
     (if lbId l = lb then l\<lparr>lbMembers := removeAll ident (lbMembers l)\<rparr> else l)"

definition deregisterFromLoadBalancer ::
  "faults \<Rightarrow> Cloud \<Rightarrow> string \<Rightarrow> string \<Rightarrow> adapter_error option \<times> Cloud" where
  "deregisterFromLoadBalancer flt c lb ident =
     (case flt (DeregisterFromLoadBalancer lb ident) of
        Some e \<Rightarrow> (Some e, c)
      | None \<Rightarrow>
          (if list_ex (\<lambda>l. lbId l = lb) (loadBalancers c)
           then (None, c\<lparr>loadBalancers := map (dropMember lb ident) (loadBalancers c)\<rparr>)
           else (Some NotFound, c)))"

subsection \<open>Object store, events and passes\<close>

text \<open>
  Modelled from the spec: the object store the reconcilers read and write (section 5),
  together with the cloud. Each kind of object is a list of entries under its key.
\<close>

record World =
  clusters :: "(key \<times> GenericCluster) list"
  infraClusters :: "(key \<times> InfraCluster) list"
  machines :: "(key \<times> GenericMachine) list"
  infraMachines :: "(key \<times> InfraMachine) list"
  cloud :: Cloud

definition putInfraMachine :: "key \<Rightarrow> InfraMachine \<Rightarrow> World \<Rightarrow> World" where
  "putInfraMachine k im w = w\<lparr>infraMachines := AList.update k im (infraMachines w)\<rparr>"

definition putInfraCluster :: "key \<Rightarrow> InfraCluster \<Rightarrow> World \<Rightarrow> World" where
  "putInfraCluster k ic w = w\<lparr>infraClusters := AList.update k ic (infraClusters w)\<rparr>"

text \<open>
  What a pass does, in the order it does it: a call of the adapter with its outcome
  (\<open>None\<close> for success), or a write to the store.
\<close>

datatype event =
  Called call "adapter_error option"
  | FinalizerAdded
  | FinalizerRemoved
  | InstanceIDRecorded string
  | MachineMarkedReady
  | LoadBalancerIDRecorded string
  | ClusterMarkedReady
  | ReadinessPropagated
  | ConditionRecorded adapter_error

text \<open>Each event is paired with the world at the instant it is issued.\<close>

type_synonym trace = "(event \<times> World) list"

text \<open>
  Modelled from the spec: the contract \<open>Reconcile(key) \<rightarrow> (requeueAfter, error)\<close>. The
  intervals are not fixed by the specification; only their kind is.
\<close>

datatype requeue = NoRequeue | RequeueShort | RequeueBackoff | RequeueLong

record Result =
  requeueAfter :: requeue
  surfaced :: "adapter_error option"

record Pass =
  p_world :: World
  p_trace :: trace
  p_result :: Result

definition finished :: Result where
  "finished = \<lparr>requeueAfter = NoRequeue, surfaced = None\<rparr>"

definition notYet :: Result where
  "notYet = \<lparr>requeueAfter = RequeueShort, surfaced = None\<rparr>"

text \<open>
  Modelled from the spec: the error taxonomy of section 7. A transient error (conflict,
  rate limit) is a backoff requeue and is not surfaced; a permanent configuration error
  is surfaced and requeued at the long interval; an error of no other class (not-found
  outside a delete) is surfaced.
\<close>

definition classify :: "adapter_error \<Rightarrow> Result" where
  "classify e =
     (case e of
        NotFound \<Rightarrow> \<lparr>requeueAfter = RequeueBackoff, surfaced = Some NotFound\<rparr>
      | Conflict \<Rightarrow> \<lparr>requeueAfter = RequeueBackoff, surfaced = None\<rparr>
      | RateLimited \<Rightarrow> \<lparr>requeueAfter = RequeueBackoff, surfaced = None\<rparr>
      | Permanent \<Rightarrow> \<lparr>requeueAfter = RequeueLong, surfaced = Some Permanent\<rparr>)"

subsection \<open>Readiness Gate Library (specification, section 4.4)\<close>

text \<open>Modelled from the spec: \<open>IsBootstrapReady(machine) bool\<close>.\<close>

definition IsBootstrapReady :: "GenericMachine \<Rightarrow> bool" where
  "IsBootstrapReady m = m_bootstrapDataReady m"

text \<open>Modelled from the spec: the owning Machine of an InfraMachine (section 3, Ownership).\<close>

definition owningMachine :: "World \<Rightarrow> key \<Rightarrow> InfraMachine \<Rightarrow> GenericMachine option" where
  "owningMachine w k im = map_of (machines w) (fst k, im_owner im)"

text \<open>
  Modelled from the spec: the InfraCluster that an InfraMachine lists as its cluster, in
  the same namespace.
\<close>

definition owningInfraCluster :: "World \<Rightarrow> key \<Rightarrow> InfraMachine \<Rightarrow> InfraCluster option" where
  "owningInfraCluster w k im = map_of (infraClusters w) (fst k, im_cluster im)"

subsection \<open>Machine Reconciler (specification, section 4.2)\<close>

text \<open>
  Modelled from the spec: the handling of an adapter error by the Machine Reconciler
  (section 4.2, Error handling). The failed call is the last call of the pass; a permanent
  configuration error is recorded in the condition of the InfraMachine.
\<close>

definition machineFailed :: "key \<Rightarrow> InfraMachine \<Rightarrow> World \<Rightarrow> trace \<Rightarrow> call \<Rightarrow> adapter_error \<Rightarrow> Pass" where
  "machineFailed k im w tr c e =
     (if e = Permanent
      then \<lparr>p_world = putInfraMachine k (im\<lparr>im_condition := Some e\<rparr>) w,
            p_trace = tr @ [(Called c (Some e), w), (ConditionRecorded e, w)],
            p_result = classify e\<rparr>
      else \<lparr>p_world = w, p_trace = tr @ [(Called c (Some e), w)], p_result = classify e\<rparr>)"

text \<open>
  Modelled from the spec: the instance is created under the deterministic name, the
  machine name, with size, image, SSH keys, tags and the rendered bootstrap user-data.
\<close>

definition instanceSpecOf :: "key \<Rightarrow> InfraMachine \<Rightarrow> GenericMachine \<Rightarrow> InstanceSpec" where
  "instanceSpecOf k im m =
     \<lparr>is_name = snd k, is_size = im_size im, is_image = im_image im,
      is_sshKeys = im_sshKeys im, is_tags = im_additionalTags im,
      is_userData = m_bootstrapData m\<rparr>"

text \<open>
  Modelled from the spec: \<open>status.ready = true\<close> and \<open>status.addresses\<close> are written
  together, as the last step of the pass.
\<close>

definition markReady :: "key \<Rightarrow> InfraMachine \<Rightarrow> Instance \<Rightarrow> World \<Rightarrow> trace \<Rightarrow> Pass" where
  "markReady k im i w tr =
     \<lparr>p_world = putInfraMachine k (im\<lparr>im_ready := True, im_addresses := instanceAddresses i\<rparr>) w,
      p_trace = tr @ [(MachineMarkedReady, w)],
      p_result = finished\<rparr>"

text \<open>
  Modelled from the spec: Polling and Control-plane registration. While the instance is
  not running the pass requeues at the short interval. Once it is running, a machine that
  is already ready needs nothing; a control-plane member is registered with the load
  balancer of its cluster and is marked ready only after the registration succeeded; any
  other machine is marked ready.
\<close>

definition registerAndMarkReady ::
  "faults \<Rightarrow> key \<Rightarrow> InfraMachine \<Rightarrow> InfraCluster \<Rightarrow> Instance \<Rightarrow> World \<Rightarrow> trace \<Rightarrow> Pass" where
  "registerAndMarkReady flt k im ic i w tr =
     (if \<not> instanceRunning i then \<lparr>p_world = w, p_trace = tr, p_result = notYet\<rparr>
      else if im_ready im then \<lparr>p_world = w, p_trace = tr, p_result = finished\<rparr>
      else if im_isControlPlane im then
        (case ic_loadBalancerID ic of
           None \<Rightarrow> \<lparr>p_world = w, p_trace = tr, p_result = notYet\<rparr>
         | Some lb \<Rightarrow>
             (case registerWithLoadBalancer flt (cloud w) lb (instanceId i) of
                (Some e, c') \<Rightarrow>
                  machineFailed k im w tr (RegisterWithLoadBalancer lb (instanceId i)) e
              | (None, c') \<Rightarrow>
                  markReady k im i (w\<lparr>cloud := c'\<rparr>)
                    (tr @ [(Called (RegisterWithLoadBalancer lb (instanceId i)) None, w)])))
      else markReady k im i w tr)"

text \<open>
  Modelled from the spec: Provisioning. A recorded identifier is the sole authority for
  the lookup. Without one the instance is looked up by its deterministic name and created
  only if that lookup finds none; the identifier is recorded right after the lookup or
  the create call, before anything else.
\<close>

definition provisionInstance ::
  "faults \<Rightarrow> key \<Rightarrow> InfraMachine \<Rightarrow> GenericMachine \<Rightarrow> InfraCluster \<Rightarrow> World \<Rightarrow> Pass" where
  "provisionInstance flt k im m ic w =
     (case im_instanceID im of
        Some ident \<Rightarrow>
          (case getInstance flt (cloud w) ident of
             Inl e \<Rightarrow> machineFailed k im w [] (GetInstance ident) e
           | Inr i \<Rightarrow>
               registerAndMarkReady flt k im ic i w [(Called (GetInstance ident) None, w)])
      | None \<Rightarrow>
          (case findInstance flt (cloud w) (snd k) of
             Inl e \<Rightarrow> machineFailed k im w [] (FindInstance (snd k)) e
           | Inr (Some i) \<Rightarrow>
               (let im' = im\<lparr>im_instanceID := Some (instanceId i)\<rparr>
                in registerAndMarkReady flt k im' ic i (putInfraMachine k im' w)
                     [(Called (FindInstance (snd k)) None, w),
                      (InstanceIDRecorded (instanceId i), w)])
           | Inr None \<Rightarrow>
               (let sp = instanceSpecOf k im m
                in case createInstance flt (cloud w) sp of
                     (Inl e, c') \<Rightarrow>
                       machineFailed k im w [(Called (FindInstance (snd k)) None, w)]
                         (CreateInstance sp) e
                   | (Inr i, c') \<Rightarrow>
                       (let w1 = w\<lparr>cloud := c'\<rparr>;
                            im' = im\<lparr>im_instanceID := Some (instanceId i)\<rparr>
                        in registerAndMarkReady flt k im' ic i (putInfraMachine k im' w1)
                             [(Called (FindInstance (snd k)) None, w),
                              (Called (CreateInstance sp) None, w),
                              (InstanceIDRecorded (instanceId i), w1)]))))"

text \<open>
  Modelled from the spec: the pass on an InfraMachine without deletion timestamp. The
  finalizer is ensured first, as section 4.1 words it for the cluster (write, then
  requeue); then Gate 1 (bootstrap data ready) and Gate 2 (cluster ready) requeue without
  creating anything; then the instance is provisioned.
\<close>

definition reconcileMachineNormal :: "faults \<Rightarrow> key \<Rightarrow> InfraMachine \<Rightarrow> World \<Rightarrow> Pass" where
  "reconcileMachineNormal flt k im w =
     (if \<not> im_finalizer im
      then \<lparr>p_world = putInfraMachine k (im\<lparr>im_finalizer := True\<rparr>) w,
            p_trace = [(FinalizerAdded, w)], p_result = notYet\<rparr>
      else case owningMachine w k im of
             None \<Rightarrow> \<lparr>p_world = w, p_trace = [], p_result = notYet\<rparr>
           | Some m \<Rightarrow>
               if \<not> IsBootstrapReady m then \<lparr>p_world = w, p_trace = [], p_result = notYet\<rparr>
               else case owningInfraCluster w k im of
                      None \<Rightarrow> \<lparr>p_world = w, p_trace = [], p_result = notYet\<rparr>
                    | Some ic \<Rightarrow>
                        if \<not> ic_ready ic
                        then \<lparr>p_world = w, p_trace = [], p_result = notYet\<rparr>
                        else provisionInstance flt k im m ic w)"

text \<open>
  Modelled from the spec: removing the finalizer lets the store purge the object
  (Glossary, Finalizer), which completes the deletion.
\<close>

definition removeMachineFinalizer :: "key \<Rightarrow> World \<Rightarrow> trace \<Rightarrow> Pass" where
  "removeMachineFinalizer k w tr =
     \<lparr>p_world = w\<lparr>infraMachines := AList.delete k (infraMachines w)\<rparr>,
      p_trace = tr @ [(FinalizerRemoved, w)],
      p_result = finished\<rparr>"

text \<open>
  Modelled from the spec: Deletion, second and third step: delete the instance (not-found
  is success), then remove the finalizer. Without an instance there is nothing to delete.
\<close>

definition deleteInstanceThenFinalize ::
  "faults \<Rightarrow> key \<Rightarrow> InfraMachine \<Rightarrow> string option \<Rightarrow> World \<Rightarrow> trace \<Rightarrow> Pass" where
  "deleteInstanceThenFinalize flt k im inst w tr =
     (case inst of
        None \<Rightarrow> removeMachineFinalizer k w tr
      | Some ident \<Rightarrow>
          (case deleteInstance flt (cloud w) ident of
             (None, c') \<Rightarrow>
               removeMachineFinalizer k (w\<lparr>cloud := c'\<rparr>)
                 (tr @ [(Called (DeleteInstance ident) None, w)])
           | (Some e, c') \<Rightarrow>
               if e = NotFound
               then removeMachineFinalizer k w
                      (tr @ [(Called (DeleteInstance ident) (Some NotFound), w)])
               else machineFailed k im w tr (DeleteInstance ident) e))"

text \<open>
  Modelled from the spec: Deletion, first step: a control-plane member is deregistered
  from the load balancer before its instance is deleted, a no-op if it is already
  deregistered or the load balancer is already gone.
\<close>

definition loadBalancerOf :: "World \<Rightarrow> key \<Rightarrow> InfraMachine \<Rightarrow> string option" where
  "loadBalancerOf w k im =
     (case owningInfraCluster w k im of None \<Rightarrow> None | Some ic \<Rightarrow> ic_loadBalancerID ic)"

definition deregisterThenDelete ::
  "faults \<Rightarrow> key \<Rightarrow> InfraMachine \<Rightarrow> string option \<Rightarrow> World \<Rightarrow> trace \<Rightarrow> Pass" where
  "deregisterThenDelete flt k im inst w tr =
     (case (if im_isControlPlane im then inst else None, loadBalancerOf w k im) of
        (Some ident, Some lb) \<Rightarrow>
          (case deregisterFromLoadBalancer flt (cloud w) lb ident of
             (None, c') \<Rightarrow>
               deleteInstanceThenFinalize flt k im inst (w\<lparr>cloud := c'\<rparr>)
                 (tr @ [(Called (DeregisterFromLoadBalancer lb ident) None, w)])
           | (Some e, c') \<Rightarrow>
               if e = NotFound
               then deleteInstanceThenFinalize flt k im inst w
                      (tr @ [(Called (DeregisterFromLoadBalancer lb ident) (Some NotFound), w)])
               else machineFailed k im w tr (DeregisterFromLoadBalancer lb ident) e)
      | _ \<Rightarrow> deleteInstanceThenFinalize flt k im inst w tr)"

text \<open>
  Modelled from the spec: the pass on an InfraMachine with deletion timestamp. The
  instance is the one recorded in the status or, when none is recorded, the one found
  under the deterministic name.
\<close>

definition reconcileMachineDelete :: "faults \<Rightarrow> key \<Rightarrow> InfraMachine \<Rightarrow> World \<Rightarrow> Pass" where
  "reconcileMachineDelete flt k im w =
     (case im_instanceID im of
        Some ident \<Rightarrow> deregisterThenDelete flt k im (Some ident) w []
      | None \<Rightarrow>
          (case findInstance flt (cloud w) (snd k) of
             Inl e \<Rightarrow> machineFailed k im w [] (FindInstance (snd k)) e
           | Inr found \<Rightarrow>
               deregisterThenDelete flt k im (map_option instanceId found) w
                 [(Called (FindInstance (snd k)) None, w)]))"

text \<open>Modelled from the spec: \<open>Reconcile(machineKey) \<rightarrow> (requeueAfter, error)\<close>.\<close>

definition MachineReconcile :: "faults \<Rightarrow> World \<Rightarrow> key \<Rightarrow> Pass" where
  "MachineReconcile flt w k =
     (case map_of (infraMachines w) k of
        None \<Rightarrow> \<lparr>p_world = w, p_trace = [], p_result = finished\<rparr>
      | Some im \<Rightarrow>
          if im_deletionTimestamp im then reconcileMachineDelete flt k im w
          else reconcileMachineNormal flt k im w)"

subsection \<open>Cluster Reconciler (specification, section 4.1)\<close>

text \<open>
  Modelled from the spec: the handling of an adapter error by the Cluster Reconciler
  (section 4.1, Error handling); a permanent misconfiguration is recorded in the condition
  of the InfraCluster.
\<close>

definition clusterFailed :: "key \<Rightarrow> InfraCluster \<Rightarrow> World \<Rightarrow> trace \<Rightarrow> call \<Rightarrow> adapter_error \<Rightarrow> Pass" where
  "clusterFailed k ic w tr c e =
     (if e = Permanent
      then \<lparr>p_world = putInfraCluster k (ic\<lparr>ic_condition := Some e\<rparr>) w,
            p_trace = tr @ [(Called c (Some e), w), (ConditionRecorded e, w)],
            p_result = classify e\<rparr>
      else \<lparr>p_world = w, p_trace = tr @ [(Called c (Some e), w)], p_result = classify e\<rparr>)"

text \<open>
  Modelled from the spec: the deterministic name of the load balancer, derived from the
  identity of the cluster. The specification leaves the derivation open; the namespace
  and the name joined by a dash are taken here, and the port of the API server.
\<close>

definition loadBalancerName :: "key \<Rightarrow> string" where
  "loadBalancerName k = fst k @ ''-'' @ snd k"

definition loadBalancerSpecOf :: "key \<Rightarrow> InfraCluster \<Rightarrow> LoadBalancerSpec" where
  "loadBalancerSpecOf k ic =
     \<lparr>ls_name = loadBalancerName k, ls_region = ic_region ic, ls_port = 6443\<rparr>"

text \<open>
  Modelled from the spec: readiness and endpoint are propagated to the generic Cluster
  that owns the InfraCluster; the store is written only when something changes.
\<close>

definition propagated :: "GenericCluster \<Rightarrow> InfraCluster \<Rightarrow> bool" where
  "propagated c ic =
     (c_infrastructureReady c \<and> c_controlPlaneEndpoint c = ic_controlPlaneEndpoint ic)"

definition propagateReadiness :: "key \<Rightarrow> InfraCluster \<Rightarrow> World \<Rightarrow> trace \<Rightarrow> Pass" where
  "propagateReadiness k ic w tr =
     (case map_of (clusters w) (fst k, ic_owner ic) of
        None \<Rightarrow> \<lparr>p_world = w, p_trace = tr, p_result = finished\<rparr>
      | Some c \<Rightarrow>
          if propagated c ic then \<lparr>p_world = w, p_trace = tr, p_result = finished\<rparr>
          else \<lparr>p_world = w\<lparr>clusters := AList.update (fst k, ic_owner ic)
                    (c\<lparr>c_infrastructureReady := True,
                       c_controlPlaneEndpoint := ic_controlPlaneEndpoint ic\<rparr>) (clusters w)\<rparr>,
                p_trace = tr @ [(ReadinessPropagated, w)],
                p_result = finished\<rparr>)"

text \<open>
  Modelled from the spec: once the load balancer reports an external address, set
  \<open>status.controlPlaneEndpoint\<close> and \<open>status.ready = true\<close>, then propagate; until then
  requeue. The status is written only when it changes.
\<close>

definition published :: "InfraCluster \<Rightarrow> Endpoint \<Rightarrow> bool" where
  "published ic ep = (ic_ready ic \<and> ic_controlPlaneEndpoint ic = Some ep)"

definition publishEndpoint :: "key \<Rightarrow> InfraCluster \<Rightarrow> LoadBalancer \<Rightarrow> World \<Rightarrow> trace \<Rightarrow> Pass" where
  "publishEndpoint k ic l w tr =
     (case lbIP l of
        None \<Rightarrow> \<lparr>p_world = w, p_trace = tr, p_result = notYet\<rparr>
      | Some ip \<Rightarrow>
          (let ep = \<lparr>host = ip, port = ls_port (lbSpec l)\<rparr>
           in if published ic ep then propagateReadiness k ic w tr
              else (let ic' = ic\<lparr>ic_ready := True, ic_controlPlaneEndpoint := Some ep\<rparr>
                    in propagateReadiness k ic' (putInfraCluster k ic' w)
                         (tr @ [(ClusterMarkedReady, w)]))))"

text \<open>
  Modelled from the spec: find-or-create of the load balancer. A recorded identifier is
  the sole authority for the lookup; without one, the lookup by the deterministic name
  precedes the create call, and the identifier is recorded right after either.
\<close>

definition provisionLoadBalancer :: "faults \<Rightarrow> key \<Rightarrow> InfraCluster \<Rightarrow> World \<Rightarrow> Pass" where
  "provisionLoadBalancer flt k ic w =
     (case ic_loadBalancerID ic of
        Some ident \<Rightarrow>
          (case getLoadBalancer flt (cloud w) ident of
             Inl e \<Rightarrow> clusterFailed k ic w [] (GetLoadBalancer ident) e
           | Inr l \<Rightarrow> publishEndpoint k ic l w [(Called (GetLoadBalancer ident) None, w)])
      | None \<Rightarrow>
          (case findLoadBalancer flt (cloud w) (loadBalancerName k) of
             Inl e \<Rightarrow> clusterFailed k ic w [] (FindLoadBalancer (loadBalancerName k)) e
           | Inr (Some l) \<Rightarrow>
               (let ic' = ic\<lparr>ic_loadBalancerID := Some (lbId l)\<rparr>
                in publishEndpoint k ic' l (putInfraCluster k ic' w)
                     [(Called (FindLoadBalancer (loadBalancerName k)) None, w),
                      (LoadBalancerIDRecorded (lbId l), w)])
           | Inr None \<Rightarrow>
               (let sp = loadBalancerSpecOf k ic
                in case createLoadBalancer flt (cloud w) sp of
                     (Inl e, c') \<Rightarrow>
                       clusterFailed k ic w
                         [(Called (FindLoadBalancer (loadBalancerName k)) None, w)]
                         (CreateLoadBalancer sp) e
                   | (Inr l, c') \<Rightarrow>
                       (let w1 = w\<lparr>cloud := c'\<rparr>;
                            ic' = ic\<lparr>ic_loadBalancerID := Some (lbId l)\<rparr>
                        in publishEndpoint k ic' l (putInfraCluster k ic' w1)
                             [(Called (FindLoadBalancer (loadBalancerName k)) None, w),
                              (Called (CreateLoadBalancer sp) None, w),
                              (LoadBalancerIDRecorded (lbId l), w1)]))))"

text \<open>
  Modelled from the spec: the pass on an InfraCluster without deletion timestamp: ensure
  the finalizer (write, then requeue) before provisioning.
\<close>

definition reconcileClusterNormal :: "faults \<Rightarrow> key \<Rightarrow> InfraCluster \<Rightarrow> World \<Rightarrow> Pass" where
  "reconcileClusterNormal flt k ic w =
     (if \<not> ic_finalizer ic
      then \<lparr>p_world = putInfraCluster k (ic\<lparr>ic_finalizer := True\<rparr>) w,
            p_trace = [(FinalizerAdded, w)], p_result = notYet\<rparr>
      else provisionLoadBalancer flt k ic w)"

text \<open>
  Modelled from the spec: the InfraMachines of the same namespace that still list this
  InfraCluster as their cluster.
\<close>

definition referencingMachines :: "World \<Rightarrow> key \<Rightarrow> (key \<times> InfraMachine) list" where
  "referencingMachines w k =
     filter (\<lambda>(mk, im). fst mk = fst k \<and> im_cluster im = snd k) (infraMachines w)"

definition removeClusterFinalizer :: "key \<Rightarrow> World \<Rightarrow> trace \<Rightarrow> Pass" where
  "removeClusterFinalizer k w tr =
     \<lparr>p_world = w\<lparr>infraClusters := AList.delete k (infraClusters w)\<rparr>,
      p_trace = tr @ [(FinalizerRemoved, w)],
      p_result = finished\<rparr>"

text \<open>
  Modelled from the spec: delete the load balancer (not-found is success), then remove
  the finalizer.
\<close>

definition deleteLoadBalancerThenFinalize ::
  "faults \<Rightarrow> key \<Rightarrow> InfraCluster \<Rightarrow> string option \<Rightarrow> World \<Rightarrow> trace \<Rightarrow> Pass" where
  "deleteLoadBalancerThenFinalize flt k ic lb w tr =
     (case lb of
        None \<Rightarrow> removeClusterFinalizer k w tr
      | Some ident \<Rightarrow>
          (case deleteLoadBalancer flt (cloud w) ident of
             (None, c') \<Rightarrow>
               removeClusterFinalizer k (w\<lparr>cloud := c'\<rparr>)
                 (tr @ [(Called (DeleteLoadBalancer ident) None, w)])
           | (Some e, c') \<Rightarrow>
               if e = NotFound
               then removeClusterFinalizer k w
                      (tr @ [(Called (DeleteLoadBalancer ident) (Some NotFound), w)])
               else clusterFailed k ic w tr (DeleteLoadBalancer ident) e))"

text \<open>
  Modelled from the spec: the pass on an InfraCluster with deletion timestamp: block
  until no InfraMachine references it; then delete the load balancer; then remove the
  finalizer. The load balancer is the one recorded in the status or, when none is
  recorded, the one found under the deterministic name.
\<close>

definition reconcileClusterDelete :: "faults \<Rightarrow> key \<Rightarrow> InfraCluster \<Rightarrow> World \<Rightarrow> Pass" where
  "reconcileClusterDelete flt k ic w =
     (if referencingMachines w k \<noteq> []
      then \<lparr>p_world = w, p_trace = [], p_result = notYet\<rparr>
      else case ic_loadBalancerID ic of
             Some ident \<Rightarrow> deleteLoadBalancerThenFinalize flt k ic (Some ident) w []
           | None \<Rightarrow>
               (case findLoadBalancer flt (cloud w) (loadBalancerName k) of
                  Inl e \<Rightarrow> clusterFailed k ic w [] (FindLoadBalancer (loadBalancerName k)) e
                | Inr found \<Rightarrow>
                    deleteLoadBalancerThenFinalize flt k ic (map_option lbId found) w
                      [(Called (FindLoadBalancer (loadBalancerName k)) None, w)]))"

text \<open>Modelled from the spec: \<open>Reconcile(clusterKey) \<rightarrow> (requeueAfter, error)\<close>.\<close>

definition ClusterReconcile :: "faults \<Rightarrow> World \<Rightarrow> key \<Rightarrow> Pass" where
  "ClusterReconcile flt w k =
     (case map_of (infraClusters w) k of
        None \<Rightarrow> \<lparr>p_world = w, p_trace = [], p_result = finished\<rparr>
      | Some ic \<Rightarrow>
          if ic_deletionTimestamp ic then reconcileClusterDelete flt k ic w
          else reconcileClusterNormal flt k ic w)"

subsection \<open>Reconciliation histories\<close>

text \<open>
  Modelled from the spec: the control flow of section 2 and the resource model of
  section 5. A history is a sequence of steps from an initial world. A step is a pass of
  one reconciler on one key, with the faults the adapter shows during that pass; or such
  a pass cut short by a crash after a number of its effects took place; or a change made
  by somebody else (the generic controllers, the user, the cloud provider).
\<close>

datatype reconciler = ClusterReconciler | MachineReconciler

definition Reconcile :: "reconciler \<Rightarrow> faults \<Rightarrow> World \<Rightarrow> key \<Rightarrow> Pass" where
  "Reconcile r flt w k =
     (case r of
        ClusterReconciler \<Rightarrow> ClusterReconcile flt w k
      | MachineReconciler \<Rightarrow> MachineReconcile flt w k)"

datatype step =
  Completes reconciler key faults
  | Crashes reconciler key faults nat
  | External "World \<Rightarrow> World"

text \<open>
  The events of a pass that took place and the world it leaves. A crash after \<open>n\<close>
  events leaves the world in which the next event would have been issued.
\<close>

definition cutTrace :: "nat \<Rightarrow> Pass \<Rightarrow> trace" where
  "cutTrace n p = take n (p_trace p)"

definition cutWorld :: "nat \<Rightarrow> Pass \<Rightarrow> World" where
  "cutWorld n p = (if n < length (p_trace p) then snd (p_trace p ! n) else p_world p)"

fun observed :: "step \<Rightarrow> World \<Rightarrow> trace" where
  "observed (Completes r k flt) w = p_trace (Reconcile r flt w k)"
| "observed (Crashes r k flt n) w = cutTrace n (Reconcile r flt w k)"
| "observed (External f) w = []"

fun exec :: "step \<Rightarrow> World \<Rightarrow> World" where
  "exec (Completes r k flt) w = p_world (Reconcile r flt w k)"
| "exec (Crashes r k flt n) w = cutWorld n (Reconcile r flt w k)"
| "exec (External f) w = f w"

text \<open>The steps of a history, each with the world it starts from, and the final world.\<close>

fun history :: "World \<Rightarrow> step list \<Rightarrow> (World \<times> step) list" where
  "history w [] = []"
| "history w (s # ss) = (w, s) # history (exec s w) ss"

fun final :: "World \<Rightarrow> step list \<Rightarrow> World" where
  "final w [] = w"
| "final w (s # ss) = final (exec s w) ss"

subsection \<open>The two gates of instance creation, read off a world\<close>

text \<open>
  The status flags that Gate 1 and Gate 2 of section 4.2 read, for the InfraMachine under
  a key: \<open>status.bootstrapDataReady\<close> of its owning Machine and \<open>status.ready\<close> of its
  InfraCluster. A missing object counts as not ready.
\<close>

definition bootstrapDataReadyAt :: "World \<Rightarrow> key \<Rightarrow> bool" where
  "bootstrapDataReadyAt w k =
     (case map_of (infraMachines w) k of
        None \<Rightarrow> False
      | Some im \<Rightarrow>
          (case owningMachine w k im of None \<Rightarrow> False | Some m \<Rightarrow> m_bootstrapDataReady m))"

definition clusterReadyAt :: "World \<Rightarrow> key \<Rightarrow> bool" where
  "clusterReadyAt w k =
     (case map_of (infraMachines w) k of
        None \<Rightarrow> False
      | Some im \<Rightarrow>
          (case owningInfraCluster w k im of None \<Rightarrow> False | Some ic \<Rightarrow> ic_ready ic))"

subsection \<open>The scenario of section 8\<close>

text \<open>
  Cluster \<open>demo\<close> in region \<open>nyc1\<close> with the control-plane machine \<open>cp-1\<close>, in the
  namespace \<open>default\<close>: the concrete objects on which the theorems below are exercised.
\<close>

definition demo :: key where
  "demo = (''default'', ''demo'')"

definition cp1 :: key where
  "cp1 = (''default'', ''cp-1'')"

definition demoInfraCluster :: InfraCluster where
  "demoInfraCluster =
     \<lparr>ic_owner = ''demo'', ic_deletionTimestamp = False, ic_finalizer = True,
      ic_region = ''nyc1'', ic_ready = True,
      ic_controlPlaneEndpoint = Some \<lparr>host = ''203.0.113.10'', port = 6443\<rparr>,
      ic_loadBalancerID = Some ''0'', ic_condition = None\<rparr>"

definition demoCluster :: GenericCluster where
  "demoCluster =
     \<lparr>c_infrastructureRef = ''demo'', c_infrastructureReady = True,
      c_controlPlaneEndpoint = Some \<lparr>host = ''203.0.113.10'', port = 6443\<rparr>,
      c_controlPlaneInitialized = False\<rparr>"

definition demoLoadBalancer :: LoadBalancer where
  "demoLoadBalancer =
     \<lparr>lbId = ''0'',
      lbSpec = \<lparr>ls_name = ''default-demo'', ls_region = ''nyc1'', ls_port = 6443\<rparr>,
      lbIP = Some ''203.0.113.10'', lbMembers = []\<rparr>"

definition cp1Machine :: GenericMachine where
  "cp1Machine =
     \<lparr>m_bootstrapRef = ''cp-1'', m_infrastructureRef = ''cp-1'', m_version = ''v1.17.3'',
      m_controlPlane = True, m_bootstrapData = ''#cloud-config'',
      m_bootstrapDataReady = True, m_infrastructureReady = False, m_nodeRef = None\<rparr>"

definition cp1InfraMachine :: InfraMachine where
  "cp1InfraMachine =
     \<lparr>im_owner = ''cp-1'', im_cluster = ''demo'', im_deletionTimestamp = False,
      im_finalizer = True, im_size = ''s-2vcpu-2gb'',
      im_image = FromString ''ubuntu-18-04-x64'', im_sshKeys = [FromInt 12345],
      im_additionalTags = [''e2e-test''], im_isControlPlane = True, im_ready = False,
      im_instanceID = None, im_addresses = [], im_condition = None\<rparr>"

definition cp1Spec :: InstanceSpec where
  "cp1Spec =
     \<lparr>is_name = ''cp-1'', is_size = ''s-2vcpu-2gb'', is_image = FromString ''ubuntu-18-04-x64'',
      is_sshKeys = [FromInt 12345], is_tags = [''e2e-test''], is_userData = ''#cloud-config''\<rparr>"

text \<open>
  The cluster is ready, its load balancer has an address, the bootstrap data of \<open>cp-1\<close>
  is ready and no instance exists yet.
\<close>

definition readyWorld :: World where
  "readyWorld =
     \<lparr>clusters = [(demo, demoCluster)], infraClusters = [(demo, demoInfraCluster)],
      machines = [(cp1, cp1Machine)], infraMachines = [(cp1, cp1InfraMachine)],
      cloud = \<lparr>instances = [], loadBalancers = [demoLoadBalancer], nextId = 1\<rparr>\<rparr>"

section \<open>Properties of the generators\<close>

lemma machineName_cases:
  "fst (machineName clusterName isControlPlane r) =
     (if isControlPlane
      then clusterName @ ''-controlplane-'' @ map r [6..<12]
      else clusterName @ ''-node-'' @ map r [0..<6])"
proof -
  have "map (\<lambda>i. r (6 + i)) [0..<6] = map r [6..<12]"
    by (simp add: upt_rec numeral_eq_Suc)
  then show ?thesis
    by (simp add: machineName_def RandomString_def Let_def split: prod.splits)
qed

text \<open>
  C10. For every namespace and name, \<open>ClusterGenerator.Generate\<close> returns a Cluster and
  a DOCluster that both carry the namespace and the name given as arguments; the Cluster's
  \<open>Spec.InfrastructureRef\<close> is set and carries the kind (as \<open>TypeToKind\<close> computes it),
  the namespace and the name of the returned DOCluster; and the DOCluster's region is
  \<open>nyc1\<close>.
\<close>

theorem ClusterGenerator_Generate_refs:
  "(let (cluster, docluster) = ClusterGenerator_Generate env clusterNamespace clusterName
    in Namespace (Cluster_ObjectMeta cluster) = clusterNamespace
     \<and> Name (Cluster_ObjectMeta cluster) = clusterName
     \<and> Namespace (DOCluster_ObjectMeta docluster) = clusterNamespace
     \<and> Name (DOCluster_ObjectMeta docluster) = clusterName
     \<and> (\<exists>ref. Cluster_InfrastructureRef (Cluster_Spec cluster) = Some ref
          \<and> Kind ref = TypeToKind env (DOClusterObject docluster)
          \<and> RefNamespace ref = Namespace (DOCluster_ObjectMeta docluster)
          \<and> RefName ref = Name (DOCluster_ObjectMeta docluster))
     \<and> Region (DOCluster_Spec docluster) = ''nyc1'')"
  by (simp add: ClusterGenerator_Generate_def Let_def)

text \<open>
  C9. For every namespace, cluster name, control-plane flag and random source,
  \<open>MachineGenerator.Generate\<close> returns a Machine, a KubeadmConfig and a DOMachine with one
  common name, all in the namespace given; the Machine's \<open>Spec.Bootstrap.ConfigRef\<close> is set
  and carries the API version, kind, namespace and name of the returned KubeadmConfig; its
  \<open>Spec.InfrastructureRef\<close> carries those of the returned DOMachine; the Machine's
  cluster-name label is the cluster name; and its control-plane label is \<open>true\<close> exactly
  when the control-plane flag is set.
\<close>

theorem MachineGenerator_Generate_refs:
  "(let (machine, kubeadmconfig, domachine) =
          fst (MachineGenerator_Generate env namespace clusterName isControlPlane r)
    in Name (Machine_ObjectMeta machine) = Name (KubeadmConfig_ObjectMeta kubeadmconfig)
     \<and> Name (Machine_ObjectMeta machine) = Name (DOMachine_ObjectMeta domachine)
     \<and> Namespace (Machine_ObjectMeta machine) = namespace
     \<and> Namespace (KubeadmConfig_ObjectMeta kubeadmconfig) = namespace
     \<and> Namespace (DOMachine_ObjectMeta domachine) = namespace
     \<and> (\<exists>ref. ConfigRef (Machine_Bootstrap (Machine_Spec machine)) = Some ref
          \<and> APIVersion ref = bootstrapkubeadmv1_GroupVersion env
          \<and> Kind ref = TypeToKind env (KubeadmConfigObject kubeadmconfig)
          \<and> RefNamespace ref = Namespace (KubeadmConfig_ObjectMeta kubeadmconfig)
          \<and> RefName ref = Name (KubeadmConfig_ObjectMeta kubeadmconfig))
     \<and> APIVersion (Machine_InfrastructureRef (Machine_Spec machine)) = infrav1_GroupVersion env
     \<and> Kind (Machine_InfrastructureRef (Machine_Spec machine))
         = TypeToKind env (DOMachineObject domachine)
     \<and> RefNamespace (Machine_InfrastructureRef (Machine_Spec machine))
         = Namespace (DOMachine_ObjectMeta domachine)
     \<and> RefName (Machine_InfrastructureRef (Machine_Spec machine))
         = Name (DOMachine_ObjectMeta domachine)
     \<and> Labels (Machine_ObjectMeta machine) MachineClusterLabelName = Some clusterName
     \<and> (Labels (Machine_ObjectMeta machine) MachineControlPlaneLabelName = Some ''true'')
         = isControlPlane)"
  by (simp add: MachineGenerator_Generate_def Let_def labels_Merge_def
      MachineClusterLabelName_def MachineControlPlaneLabelName_def split: prod.splits)

text \<open>
  C8. For every machine that \<open>MachineGenerator.Generate\<close> produces, control plane or not,
  the KubeadmConfig carries an init configuration and a join configuration, and in both
  the kubelet argument \<open>provider-id\<close> is the template
  \<open>digitalocean://{{ ds.meta_data["instance_id"] }}\<close>, which is the provider name
  \<open>digitalocean\<close>, the separator \<open>://\<close> and the instance-identifier placeholder, and
  the node-registration name is the local-hostname placeholder
  \<open>{{ ds.meta_data["local_hostname"] }}\<close>.
\<close>

theorem MachineGenerator_Generate_provider_id:
  \<open>(let (machine, kubeadmconfig, domachine) =
          fst (MachineGenerator_Generate env namespace clusterName isControlPlane r)
    in (\<exists>init join.
          InitConfiguration (KubeadmConfig_Spec kubeadmconfig) = Some init
        \<and> JoinConfiguration (KubeadmConfig_Spec kubeadmconfig) = Some join
        \<and> KubeletExtraArgs (Init_NodeRegistration init) ''provider-id''
            = Some ''digitalocean://{{ ds.meta_data["instance_id"] }}''
        \<and> KubeletExtraArgs (Join_NodeRegistration join) ''provider-id''
            = Some ''digitalocean://{{ ds.meta_data["instance_id"] }}''
        \<and> ''digitalocean://{{ ds.meta_data["instance_id"] }}''
            = ''digitalocean'' @ ''://'' @ ''{{ ds.meta_data["instance_id"] }}''
        \<and> NodeRegistration_Name (Init_NodeRegistration init)
            = ''{{ ds.meta_data["local_hostname"] }}''
        \<and> NodeRegistration_Name (Join_NodeRegistration join)
            = ''{{ ds.meta_data["local_hostname"] }}''))\<close>
  by (simp add: MachineGenerator_Generate_def Let_def nodeRegistration_def split: prod.splits)

section \<open>Properties of the reconcilers\<close>

subsection \<open>Helpers: the definitions of a pass, and small facts about identifiers\<close>

lemmas machine_defs = MachineReconcile_def reconcileMachineNormal_def reconcileMachineDelete_def
  provisionInstance_def registerAndMarkReady_def markReady_def machineFailed_def
  deregisterThenDelete_def deleteInstanceThenFinalize_def removeMachineFinalizer_def

lemmas scenario_defs = readyWorld_def demo_def cp1_def demoInfraCluster_def demoCluster_def
  demoLoadBalancer_def cp1Machine_def cp1InfraMachine_def cp1Spec_def

lemma showNat_digits [simp]:
  "showNat 0 = ''0''" "showNat (Suc 0) = ''1''" "showNat 1 = ''1''" "showNat 2 = ''2''"
  by (simp_all add: showNat.simps)

subsection \<open>What the events of a stage of the Cluster Reconciler can be\<close>

lemma propagateReadiness_eventD:
  "(e, s) \<in> set (p_trace (propagateReadiness k ic w tr)) \<Longrightarrow>
     (e, s) \<in> set tr \<or> (e = ReadinessPropagated \<and> s = w)"
  by (auto simp: propagateReadiness_def split: option.splits if_splits)

lemma clusterFailed_eventD:
  "(e, s) \<in> set (p_trace (clusterFailed k ic w tr c err)) \<Longrightarrow>
     (e, s) \<in> set tr \<or> (e = Called c (Some err) \<and> s = w) \<or> (e = ConditionRecorded err \<and> s = w)"
  by (auto simp: clusterFailed_def split: if_splits)

lemma publishEndpoint_eventD:
  "(e, s) \<in> set (p_trace (publishEndpoint k ic l w tr)) \<Longrightarrow>
     (e, s) \<in> set tr \<or> e = ClusterMarkedReady \<or> e = ReadinessPropagated"
  by (auto simp: publishEndpoint_def Let_def split: option.splits if_splits
      dest!: propagateReadiness_eventD)

lemma removeClusterFinalizer_eventD:
  "(e, s) \<in> set (p_trace (removeClusterFinalizer k w tr)) \<Longrightarrow>
     (e, s) \<in> set tr \<or> (e = FinalizerRemoved \<and> s = w)"
  by (auto simp: removeClusterFinalizer_def)

subsection \<open>Instance creation is gated\<close>

lemma MachineReconcile_create_gated:
  assumes "(Called (CreateInstance sp) r, snap) \<in> set (p_trace (MachineReconcile flt w k))"
  shows "snap = w \<and> bootstrapDataReadyAt w k \<and> clusterReadyAt w k"
  using assms
  by (auto simp: machine_defs bootstrapDataReadyAt_def clusterReadyAt_def IsBootstrapReady_def
      Let_def split: option.splits if_splits sum.splits prod.splits)

lemma provisionLoadBalancer_no_create_instance:
  "(Called (CreateInstance sp) r, snap) \<notin> set (p_trace (provisionLoadBalancer flt k ic w))"
  by (auto simp: provisionLoadBalancer_def Let_def split: option.splits sum.splits prod.splits
      dest!: publishEndpoint_eventD clusterFailed_eventD)

lemma reconcileClusterDelete_no_create_instance:
  "(Called (CreateInstance sp) r, snap) \<notin> set (p_trace (reconcileClusterDelete flt k ic w))"
  by (auto simp: reconcileClusterDelete_def deleteLoadBalancerThenFinalize_def
      split: option.splits sum.splits prod.splits if_splits
      dest!: removeClusterFinalizer_eventD clusterFailed_eventD)

lemma ClusterReconcile_never_creates_instance:
  "(Called (CreateInstance sp) r, snap) \<notin> set (p_trace (ClusterReconcile flt w k))"
  by (simp add: ClusterReconcile_def reconcileClusterNormal_def
      provisionLoadBalancer_no_create_instance reconcileClusterDelete_no_create_instance
      split: option.splits)

lemma readyWorld_pass:
  "p_trace (MachineReconcile noFaults readyWorld cp1) =
     [(Called (FindInstance ''cp-1'') None, readyWorld),
      (Called (CreateInstance cp1Spec) None, readyWorld),
      (InstanceIDRecorded ''1'',
       readyWorld\<lparr>cloud := \<lparr>instances = [\<lparr>instanceId = ''1'', instanceSpec = cp1Spec,
                                            instanceRunning = False, instanceAddresses = []\<rparr>],
                              loadBalancers = [demoLoadBalancer], nextId = 2\<rparr>\<rparr>)]"
  by (simp add: machine_defs scenario_defs owningMachine_def owningInfraCluster_def
      IsBootstrapReady_def findInstance_def createInstance_def noFaults_def instanceSpecOf_def
      Let_def putInfraMachine_def notYet_def)

text \<open>
  C1. In every reconciliation history (any initial world, any sequence of complete
  passes, crashed passes and changes by others), a \<open>CreateInstance\<close> call is only ever
  observed in a pass of the Machine Reconciler, and the world at the instant of the call
  is the world the pass started from, in which \<open>status.bootstrapDataReady\<close> of the owning
  Machine and \<open>status.ready\<close> of the owning InfraCluster are both true.
\<close>

theorem create_instance_gated:
  assumes "(w, s) \<in> set (history w0 ss)"
    and "(Called (CreateInstance sp) r, snap) \<in> set (observed s w)"
  shows "\<exists>k flt. (s = Completes MachineReconciler k flt
                   \<or> (\<exists>n. s = Crashes MachineReconciler k flt n))
           \<and> snap = w \<and> bootstrapDataReadyAt snap k \<and> clusterReadyAt snap k"
proof (cases s)
  case (Completes rc k flt)
  with assms(2) show ?thesis
    by (cases rc)
       (auto simp: Reconcile_def ClusterReconcile_never_creates_instance
             dest: MachineReconcile_create_gated)
next
  case (Crashes rc k flt n)
  with assms(2) have "(Called (CreateInstance sp) r, snap) \<in> set (p_trace (Reconcile rc flt w k))"
    by (auto simp: cutTrace_def dest: in_set_takeD)
  with Crashes show ?thesis
    by (cases rc)
       (auto simp: Reconcile_def ClusterReconcile_never_creates_instance
             dest: MachineReconcile_create_gated)
next
  case (External f)
  with assms(2) show ?thesis by simp
qed

theorem create_instance_gated_witness:
  "(readyWorld, Completes MachineReconciler cp1 noFaults)
       \<in> set (history readyWorld [Completes MachineReconciler cp1 noFaults])
   \<and> (Called (CreateInstance cp1Spec) None, readyWorld)
       \<in> set (observed (Completes MachineReconciler cp1 noFaults) readyWorld)
   \<and> bootstrapDataReadyAt readyWorld cp1 \<and> clusterReadyAt readyWorld cp1"
proof -
  have h1: "(readyWorld, Completes MachineReconciler cp1 noFaults)
       \<in> set (history readyWorld [Completes MachineReconciler cp1 noFaults])"
    by simp
  have h2: "(Called (CreateInstance cp1Spec) None, readyWorld)
       \<in> set (observed (Completes MachineReconciler cp1 noFaults) readyWorld)"
    by (simp add: Reconcile_def readyWorld_pass)
  from create_instance_gated [OF h1 h2] h1 h2 show ?thesis by auto
qed

end
